theory Spec2Isabelle
  imports Main
begin

section \<open>TFCluster: the driver side of a TensorFlowOnSpark cluster\<close>

text \<open>
  A shallow embedding of \<^verbatim>\<open>hops/tensorflowonspark/TFCluster.py\<close>. Python integers are
  \<open>int\<close>, dictionaries are maps, exceptions are values of the type \<open>error\<close>, and the
  module's global variables are the fields of the record \<open>globals\<close>, which every
  function that touches them takes and returns. Calls that leave the module (the Spark
  context, the reservation server, the audit sink, the remote queues) are recorded as
  events in the field \<open>trace\<close>, in the order the code makes them; what such a call
  answers is an argument of the model.
\<close>

subsection \<open>Data\<close>

datatype InputMode = TENSORFLOW | SPARK

datatype error =
    AssertionError
  | Exception string
  | DuplicateNode string nat
  | TimeoutError

text \<open>
  A call either returns a value, raises, or blocks for ever (a wait whose condition never
  comes true within the answers supplied).
\<close>

datatype 'a result = Returns 'a | Raises error | Hangs

text \<open>One entry of \<open>cluster_info\<close>: the dictionary a node registers.\<close>

record node =
  host :: string
  executor_id :: nat
  job_name :: string
  task_index :: nat
  addr :: string
  authkey :: string
  tb_port :: nat

type_synonym experiment_doc = "string \<rightharpoonup> string"

datatype event =
    PutElastic "string option" int "experiment_doc option"
  | CancelAllJobs
  | StreamingStop
  | WorkerShutdownJob nat
  | Connect string string
  | GetQueue string
  | QueuePutNone
  | QueueJoin
  | ServerStart int
  | ThreadStart

text \<open>
  The module's globals: \<open>tf_status\<close>, \<open>elastic_id\<close>, \<open>experiment_json\<close>, \<open>running\<close>,
  \<open>app_id\<close> and \<open>run_id\<close>, with the trace of outside calls.
\<close>

record globals =
  tf_status :: "string \<rightharpoonup> string"
  elastic_id :: int
  experiment_json :: "experiment_doc option"
  running :: bool
  app_id :: "string option"
  run_id :: int
  trace :: "event list"

definition initial_globals :: globals where
  "initial_globals =
     \<lparr>tf_status = Map.empty, elastic_id = 0, experiment_json = None, running = False,
      app_id = None, run_id = 0, trace = []\<rparr>"

record cluster_meta =
  meta_id :: nat
  cluster_template :: "string \<rightharpoonup> int list"
  meta_num_executors :: int
  default_fs :: string
  working_dir :: string
  server_addr :: string

text \<open>The object \<open>run\<close> returns.\<close>

record TFCluster =
  meta :: cluster_meta
  nodeRDD :: "int list"
  cluster_info :: "node list"
  input_mode :: InputMode
  queues :: "string list"

subsection \<open>The role table built by \<open>run\<close>\<close>

text \<open>Python's \<open>range(a, b)\<close>: the integers from \<open>a\<close> up to \<open>b - 1\<close>, none when \<open>b \<le> a\<close>.\<close>

definition py_range :: "int \<Rightarrow> int \<Rightarrow> int list" where
  "py_range a b = [a..b - 1]"

text \<open>
  Lines 274 to 282. The table is a dictionary, so a later assignment to a key that is
  already there replaces the earlier range.
\<close>

definition build_cluster_template ::
  "int \<Rightarrow> int \<Rightarrow> string option \<Rightarrow> (string \<rightharpoonup> int list)" where
  "build_cluster_template num_executors num_ps master_node =
     (let t0 = Map.empty(''ps'' \<mapsto> py_range 0 num_ps) in
      case master_node of
        None \<Rightarrow> t0(''worker'' \<mapsto> py_range num_ps num_executors)
      | Some m \<Rightarrow>
          (let t1 = t0(m \<mapsto> py_range num_ps (num_ps + 1)) in
           if num_executors > num_ps + 1
           then t1(''worker'' \<mapsto> py_range (num_ps + 1) num_executors)
           else t1))"

text \<open>The roles whose range holds the index \<open>i\<close>.\<close>

definition roles_of :: "(string \<rightharpoonup> int list) \<Rightarrow> int \<Rightarrow> string set" where
  "roles_of t i = {k. \<exists>r. t k = Some r \<and> i \<in> set r}"

subsection \<open>Feeding: \<open>TFCluster.train\<close>\<close>

text \<open>
  An RDD is the list of its partitions. A DStream is the list of the micro-batches that
  arrive, each an RDD. \<open>foreachPartition\<close> hands every partition once to the closure
  \<open>TFSparkNode.train(cluster_info, cluster_meta, qname)\<close>; the model returns the
  partitions handed over, each with the queue name, in partition order.
\<close>

datatype 'a dataset = RDD "'a list list" | DStream "'a list list list"

text \<open>The loop \<open>for i in range(num_epochs): rdds.append(dataRDD)\<close>.\<close>

fun append_epochs :: "nat \<Rightarrow> 'b \<Rightarrow> 'b list \<Rightarrow> 'b list" where
  "append_epochs 0 d rdds = rdds"
| "append_epochs (Suc n) d rdds = append_epochs n d (rdds @ [d])"

definition foreachPartition :: "string \<Rightarrow> 'a list list \<Rightarrow> (string \<times> 'a list) list" where
  "foreachPartition qname parts = map (\<lambda>p. (qname, p)) parts"

definition train ::
  "TFCluster \<Rightarrow> 'a dataset \<Rightarrow> int \<Rightarrow> string \<Rightarrow> error + (string \<times> 'a list) list" where
  "train self dataRDD num_epochs qname =
     (if input_mode self \<noteq> SPARK then Inl AssertionError
      else if qname \<notin> set (queues self) then Inl AssertionError
      else if \<not> num_epochs \<ge> 0 then Inl AssertionError
      else case dataRDD of
        DStream batches \<Rightarrow> Inr (concat (map (foreachPartition qname) batches))
      | RDD parts \<Rightarrow>
          (let n = (if num_epochs = 0 then 10 else num_epochs);
               rdds = append_epochs (nat n) parts [];
               unionRDD = concat rdds
           in Inr (foreachPartition qname unionRDD)))"

text \<open>The items a dispatch hands over, in order.\<close>

definition dispatched_items :: "(string \<times> 'a list) list \<Rightarrow> 'a list" where
  "dispatched_items d = concat (map snd d)"

subsection \<open>The audit record: \<open>exception_handler\<close> and \<open>exit_handler\<close>\<close>

text \<open>
  \<open>experiment_json\<close> holds a JSON object; the handlers load it, set two entries and dump
  it again. The object is a map from keys to values, and \<open>now\<close> is what
  \<open>datetime.now().isoformat()\<close> answers. \<open>util.put_elastic\<close> is the event \<open>PutElastic\<close>
  with \<open>app_id\<close>, \<open>elastic_id\<close> (the label is \<open>'dist' + str(elastic_id)\<close>) and the
  document written.
\<close>

definition exception_handler :: "string \<Rightarrow> globals \<Rightarrow> globals" where
  "exception_handler now g =
     (if running g \<and> experiment_json g \<noteq> None then
        (let doc = (the (experiment_json g))(''status'' \<mapsto> ''FAILED'', ''finished'' \<mapsto> now)
         in g\<lparr>experiment_json := Some doc,
              trace := trace g @ [PutElastic (app_id g) (elastic_id g) (Some doc)]\<rparr>)
      else g)"

definition exit_handler :: "string \<Rightarrow> globals \<Rightarrow> globals" where
  "exit_handler now g =
     (if running g \<and> experiment_json g \<noteq> None then
        (let doc = (the (experiment_json g))(''status'' \<mapsto> ''KILLED'', ''finished'' \<mapsto> now)
         in g\<lparr>experiment_json := Some doc,
              trace := trace g @ [PutElastic (app_id g) (elastic_id g) (Some doc)]\<rparr>)
      else g)"

text \<open>The status a \<open>PutElastic\<close> event writes, when the document has one.\<close>

fun written_status :: "event \<Rightarrow> string option" where
  "written_status (PutElastic a l (Some doc)) = doc ''status''"
| "written_status e = None"

subsection \<open>The background thread: \<open>_start\<close>\<close>

text \<open>
  The body of the thread \<open>run\<close> starts (lines 324 to 339). \<open>nodeRDD.foreachPartition\<close>
  either returns or raises an exception of class \<open>Exception\<close>, whose \<open>str(e)\<close> is the
  message carried by \<open>Failed\<close>. The function gives what leaves the thread and the
  globals it leaves behind.
\<close>

datatype outcome = Completed | Failed string

definition start :: "outcome \<Rightarrow> string \<Rightarrow> globals \<Rightarrow> unit result \<times> globals" where
  "start dispatch now g =
     (case dispatch of
        Completed \<Rightarrow> (Returns (), g)
      | Failed msg \<Rightarrow>
          (Returns (), exception_handler now (g\<lparr>tf_status := (tf_status g)(''error'' \<mapsto> msg)\<rparr>)))"

subsection \<open>Stopping: \<open>TFCluster.shutdown\<close>\<close>

text \<open>
  One answer of the status tracker: the active job ids, and \<open>numActiveTasks\<close> of every
  active stage in the order \<open>getActiveStageIds\<close> lists them. The loops below take the
  answers the tracker will give, one per round, and hang when the answers end before the
  loop does. \<open>time.sleep\<close> changes nothing and is left out.
\<close>

record status_sample =
  activeJobsIds :: "nat list"
  stageTasks :: "nat list"

text \<open>
  One round of the streaming loop: what \<open>ssc.awaitTerminationOrTimeout(1)\<close> answers and
  the two reads of \<open>self.server.done\<close>.
\<close>

record stream_sample =
  terminated :: bool
  server_done_first :: bool
  server_done_second :: bool

text \<open>Lines 164 to 170: the loop over the active stages, on \<open>(count, done)\<close>.\<close>

fun scan_stages :: "nat \<Rightarrow> nat list \<Rightarrow> nat \<times> bool \<Rightarrow> nat \<times> bool" where
  "scan_stages n_ps [] (count, done) = (count, done)"
| "scan_stages n_ps (t # ts) (count, done) =
     (if t = n_ps then scan_stages n_ps ts (count + 1, count + 1 \<ge> 3)
      else scan_stages n_ps ts (count, done))"

text \<open>
  Lines 157 to 174: the loop of TENSORFLOW mode. It returns the answers not yet used and
  the globals, where the branch without active jobs has cleared \<open>running\<close>.
\<close>

fun poll_jobs ::
  "nat \<Rightarrow> status_sample list \<Rightarrow> nat \<Rightarrow> globals \<Rightarrow> (status_sample list \<times> globals) result" where
  "poll_jobs n_ps [] count g = Hangs"
| "poll_jobs n_ps (s # ss) count g =
     (if length (activeJobsIds s) > 0 then
        (case scan_stages n_ps (stageTasks s) (count, False) of
           (count', done) \<Rightarrow>
             if done then Returns (ss, g) else poll_jobs n_ps ss count' g)
      else Returns (ss, g\<lparr>running := False\<rparr>))"

text \<open>Lines 146 to 152: the streaming loop, on the events made so far.\<close>

fun await_streaming :: "stream_sample list \<Rightarrow> event list \<Rightarrow> event list result" where
  "await_streaming [] evs = Hangs"
| "await_streaming (s # ss) evs =
     (let done = terminated s;
          evs' = (if \<not> done \<and> server_done_first s then evs @ [StreamingStop] else evs);
          done' = (done \<or> server_done_second s)
      in if done' then Returns evs' else await_streaming ss evs')"

text \<open>Lines 211 to 217: the last wait, until no job is active.\<close>

fun wait_for_jobs :: "status_sample list \<Rightarrow> status_sample list result" where
  "wait_for_jobs [] = Hangs"
| "wait_for_jobs (s # ss) =
     (if length (activeJobsIds s) = 0 then Returns ss else wait_for_jobs ss)"

text \<open>Lines 203 to 208: what the driver does to stop one PS node.\<close>

definition ps_stop :: "node \<Rightarrow> event list" where
  "ps_stop n = [Connect (addr n) (authkey n), GetQueue ''control'', QueuePutNone, QueueJoin]"

definition bind_result :: "'a result \<Rightarrow> ('a \<Rightarrow> 'b result) \<Rightarrow> 'b result" where
  "bind_result m f = (case m of Returns x \<Rightarrow> f x | Raises e \<Rightarrow> Raises e | Hangs \<Rightarrow> Hangs)"

text \<open>
  Lines 144 to 183: the wait that depends on the mode. \<open>ssc\<close> is the streaming context,
  given by the answers it will give, or \<open>None\<close>.
\<close>

definition drain ::
  "TFCluster \<Rightarrow> stream_sample list option \<Rightarrow> status_sample list \<Rightarrow> globals
     \<Rightarrow> (status_sample list \<times> globals) result" where
  "drain self ssc answers g =
     (let ps_list = filter (\<lambda>n. job_name n = ''ps'') (cluster_info self);
          worker_list = filter (\<lambda>n. job_name n \<noteq> ''ps'') (cluster_info self)
      in case ssc of
        Some stream \<Rightarrow>
          bind_result (await_streaming stream [])
            (\<lambda>evs. Returns (answers, g\<lparr>trace := trace g @ evs\<rparr>))
      | None \<Rightarrow>
          bind_result
            (if input_mode self = TENSORFLOW then poll_jobs (length ps_list) answers 0 g
             else Returns (answers, g))
            (\<lambda>(rest, g1). Returns (rest,
               g1\<lparr>trace := trace g1 @ [WorkerShutdownJob (length worker_list)]\<rparr>)))"

text \<open>
  Lines 185 to 208: the error check, the last audit write and the stop of the PS nodes.
  \<open>util.finalize_experiment\<close> is outside this file and is the argument \<open>finalize\<close>.
\<close>

definition finish ::
  "(experiment_doc option \<Rightarrow> experiment_doc option) \<Rightarrow> string \<Rightarrow> TFCluster \<Rightarrow> globals \<Rightarrow> globals" where
  "finish finalize now self g =
     (let ps_list = filter (\<lambda>n. job_name n = ''ps'') (cluster_info self);
          g1 = (if ''error'' \<in> dom (tf_status g)
                then (let h = exception_handler now g in h\<lparr>trace := trace h @ [CancelAllJobs]\<rparr>)
                else g);
          doc = finalize (experiment_json g1);
          g2 = g1\<lparr>experiment_json := doc,
                  trace := trace g1 @ [PutElastic (app_id g1) (elastic_id g1) doc]\<rparr>
      in g2\<lparr>trace := trace g2 @ concat (map ps_stop ps_list)\<rparr>)"

definition shutdown ::
  "(experiment_doc option \<Rightarrow> experiment_doc option) \<Rightarrow> string \<Rightarrow> status_sample list
     \<Rightarrow> TFCluster \<Rightarrow> stream_sample list option \<Rightarrow> globals \<Rightarrow> globals result" where
  "shutdown finalize now answers self ssc g =
     bind_result (drain self ssc answers g)
       (\<lambda>(rest, g1).
          let g2 = finish finalize now self g1
          in bind_result (wait_for_jobs rest) (\<lambda>_. Returns g2))"

subsection \<open>Starting: \<open>run\<close>\<close>

text \<open>
  What the outside answers during one call of \<open>run\<close>: the Hadoop configuration's
  \<open>fs.defaultFS\<close>, \<open>os.getcwd()\<close>, the address \<open>server.start()\<close> returns,
  \<open>random.getrandbits(64)\<close>, \<open>sc.applicationId\<close>, the document
  \<open>util.populate_experiment\<close> returns, and how \<open>server.await_gpu_check()\<close> and
  \<open>server.await_reservations(sc, tf_status, reservation_timeout)\<close> end.
\<close>

record run_env =
  hadoop_default_fs :: string
  cwd :: string
  server_address :: string
  random_id :: nat
  application_id :: string
  populated :: experiment_doc
  gpu_check :: "bool list result"
  reservations :: "node list result"

text \<open>Lines 288 and 289: the trailing slash of a \<open>file://\<close> root is dropped.\<close>

definition strip_root_slash :: "string \<Rightarrow> string" where
  "strip_root_slash fs =
     (if take 7 fs = ''file://'' \<and> length fs > 7 \<and> last fs = CHR ''/'' then butlast fs else fs)"

text \<open>
  Lines 378 to 388: the check for a repeated \<open>(host, executor_id)\<close>. The exception
  raised is \<open>DuplicateNode h e\<close>, whose message is
  \<open>Duplicate cluster node id detected (host=h, executor_id=e)\<close> followed by the fixed
  advice.
\<close>

fun check_duplicates :: "node list \<Rightarrow> (string \<times> nat) set \<Rightarrow> error option" where
  "check_duplicates [] tb_nodes = None"
| "check_duplicates (n # ns) tb_nodes =
     (let node_id = (host n, executor_id n) in
      if node_id \<in> tb_nodes then Some (DuplicateNode (fst node_id) (snd node_id))
      else check_duplicates ns (insert node_id tb_nodes))"

text \<open>Python's truth value of \<open>log_dir\<close>: \<open>None\<close> and the empty string are false.\<close>

definition truthy :: "string option \<Rightarrow> bool" where
  "truthy s = (case s of None \<Rightarrow> False | Some x \<Rightarrow> x \<noteq> [])"

text \<open>
  \<open>run\<close>, as the calling thread executes it. The arguments the model does not read
  (\<open>sc\<close>, \<open>map_fun\<close>, \<open>tf_args\<close>, \<open>tensorboard\<close>, \<open>reservation_timeout\<close> and the naming
  ones) only travel to outside calls. The thread started at line 346 runs \<open>start\<close> beside
  this one; the event \<open>ThreadStart\<close> marks where it begins.
\<close>

definition run ::
  "run_env \<Rightarrow> int \<Rightarrow> int \<Rightarrow> InputMode \<Rightarrow> string option \<Rightarrow> bool \<Rightarrow> string option
     \<Rightarrow> string list \<Rightarrow> globals \<Rightarrow> TFCluster result \<times> globals" where
  "run env num_executors num_ps input_mode' log_dir driver_ps_nodes master_node queues' g =
     (let g1 = g\<lparr>elastic_id := elastic_id g + 1, run_id := run_id g + 1, running := True\<rparr> in
      if \<not> num_ps < num_executors then (Raises AssertionError, g1)
      else if driver_ps_nodes then
        (Raises (Exception ''running PS nodes on driver is not supported''), g1)
      else if truthy log_dir then
        (Raises (Exception ''No need to specify log_dir directory''), g1)
      else
        (let template = build_cluster_template num_executors num_ps master_node;
             defaultFS = strip_root_slash (hadoop_default_fs env);
             g2 = g1\<lparr>trace := trace g1 @ [ServerStart num_executors]\<rparr>;
             cluster_meta =
               \<lparr>meta_id = random_id env, cluster_template = template,
                meta_num_executors = num_executors, default_fs = defaultFS,
                working_dir = cwd env, server_addr = server_address env\<rparr>;
             g3 = g2\<lparr>app_id := Some (application_id env)\<rparr>;
             g4 = g3\<lparr>experiment_json := Some (populated env)\<rparr>;
             g5 = g4\<lparr>trace := trace g4 @
                    [PutElastic (app_id g4) (elastic_id g4) (experiment_json g4), ThreadStart]\<rparr>
         in case gpu_check env of
              Hangs \<Rightarrow> (Hangs, g5)
            | Raises e \<Rightarrow> (Raises e, g5)
            | Returns gpus_present \<Rightarrow>
                (case reservations env of
                   Hangs \<Rightarrow> (Hangs, g5)
                 | Raises e \<Rightarrow> (Raises e, g5)
                 | Returns info \<Rightarrow>
                     (case check_duplicates info {} of
                        Some e \<Rightarrow> (Raises e, g5)
                      | None \<Rightarrow>
                          (Returns \<lparr>meta = cluster_meta, nodeRDD = py_range 0 num_executors,
                                    cluster_info = info, input_mode = input_mode',
                                    queues = queues'\<rparr>, g5)))))"

subsection \<open>The reservation server\<close>

text \<open>
  Modelled from the spec: \<open>reservation.Server.await_reservations\<close> is not in this file.
  The registration phase waits until every expected node has submitted a record or the
  timeout elapses, whichever comes first; with fewer than \<open>n\<close> records in time it raises
  a timeout error, otherwise it returns the registry in order. \<open>arrivals\<close> lists the
  records with the second at which each arrives.
\<close>

definition await_reservations :: "int \<Rightarrow> nat \<Rightarrow> (nat \<times> node) list \<Rightarrow> node list result" where
  "await_reservations n timeout arrivals =
     (let regs = map snd (filter (\<lambda>(t, r). t \<le> timeout) arrivals) in
      if int (length regs) < n then Raises TimeoutError else Returns (take (nat n) regs))"

subsection \<open>Notions used in the statements\<close>

text \<open>
  The number of active stages of one answer whose \<open>numActiveTasks\<close> equals the number of
  PS nodes, and the number of such observations in a list of answers.
\<close>

definition matching :: "nat \<Rightarrow> status_sample \<Rightarrow> nat" where
  "matching n_ps s = length (filter (\<lambda>t. t = n_ps) (stageTasks s))"

definition observed :: "nat \<Rightarrow> status_sample list \<Rightarrow> nat" where
  "observed n_ps ss = sum_list (map (matching n_ps) ss)"

text \<open>The key \<open>(host, executor_id)\<close> of a node, \<open>node_id\<close> in the source.\<close>

definition node_key :: "node \<Rightarrow> string \<times> nat" where
  "node_key n = (host n, executor_id n)"

text \<open>The records that arrive within the timeout.\<close>

definition in_time :: "nat \<Rightarrow> (nat \<times> node) list \<Rightarrow> node list" where
  "in_time timeout arrivals = map snd (filter (\<lambda>(t, r). t \<le> timeout) arrivals)"

text \<open>
  The call gets as far as the registration phase: the three preconditions hold and the
  GPU check returns. It gets as far as the duplicate check when, besides, the reservation
  server returns the registry \<open>info\<close>.
\<close>

definition reaches_registration ::
  "run_env \<Rightarrow> int \<Rightarrow> int \<Rightarrow> string option \<Rightarrow> bool \<Rightarrow> bool" where
  "reaches_registration env num_executors num_ps log_dir driver_ps_nodes =
     (num_ps < num_executors \<and> \<not> driver_ps_nodes \<and> \<not> truthy log_dir
      \<and> (case gpu_check env of Returns gpus \<Rightarrow> True | Raises e \<Rightarrow> False | Hangs \<Rightarrow> False))"

definition reaches_check ::
  "run_env \<Rightarrow> int \<Rightarrow> int \<Rightarrow> string option \<Rightarrow> bool \<Rightarrow> node list \<Rightarrow> bool" where
  "reaches_check env num_executors num_ps log_dir driver_ps_nodes info =
     (reaches_registration env num_executors num_ps log_dir driver_ps_nodes
      \<and> reservations env = Returns info)"

subsection \<open>Example inputs\<close>

definition example_node :: "string \<Rightarrow> nat \<Rightarrow> string \<Rightarrow> node" where
  "example_node h e j =
     \<lparr>host = h, executor_id = e, job_name = j, task_index = 0, addr = h, authkey = ''key'',
      tb_port = 0\<rparr>"

definition example_env :: run_env where
  "example_env =
     \<lparr>hadoop_default_fs = ''hdfs://nn'', cwd = ''/tmp'', server_address = ''driver:4000'',
      random_id = 7, application_id = ''app_1'', populated = [''status'' \<mapsto> ''RUNNING''],
      gpu_check = Returns [False, False],
      reservations = Returns [example_node ''h0'' 0 ''ps'', example_node ''h1'' 1 ''worker'']\<rparr>"

text \<open>The cluster of one PS node and one worker that \<open>run\<close> returns in \<open>example_env\<close>.\<close>

definition example_cluster :: "InputMode \<Rightarrow> TFCluster" where
  "example_cluster mode =
     \<lparr>meta = \<lparr>meta_id = 7, cluster_template = build_cluster_template 2 1 None,
              meta_num_executors = 2, default_fs = ''hdfs://nn'', working_dir = ''/tmp'',
              server_addr = ''driver:4000''\<rparr>,
      nodeRDD = [0, 1],
      cluster_info = [example_node ''h0'' 0 ''ps'', example_node ''h1'' 1 ''worker''],
      input_mode = mode, queues = [''input'', ''output'', ''error'']\<rparr>"

text \<open>The globals \<open>run\<close> leaves in \<open>example_env\<close>, starting from the initial ones.\<close>

definition example_globals :: globals where
  "example_globals =
     \<lparr>tf_status = Map.empty, elastic_id = 1,
      experiment_json = Some [''status'' \<mapsto> ''RUNNING''], running = True,
      app_id = Some ''app_1'', run_id = 1,
      trace = [ServerStart 2, PutElastic (Some ''app_1'') 1 (Some [''status'' \<mapsto> ''RUNNING'']),
               ThreadStart]\<rparr>"


text \<open>A \<open>util.finalize_experiment\<close> that marks the document as finished.\<close>

definition example_finalize :: "experiment_doc option \<Rightarrow> experiment_doc option" where
  "example_finalize e = map_option (\<lambda>d. d(''status'' \<mapsto> ''FINISHED'')) e"

section \<open>The role table\<close>

lemma set_py_range: "set (py_range a b) = {i. a \<le> i \<and> i < b}"
  by (auto simp: py_range_def)

lemma distinct_py_range: "distinct (py_range a b)"
  by (simp add: py_range_def)

lemma roles_of_no_master:
  "roles_of (build_cluster_template num_executors num_ps None) i =
     (if 0 \<le> i \<and> i < num_ps then {''ps''} else {})
     \<union> (if num_ps \<le> i \<and> i < num_executors then {''worker''} else {})"
  by (auto simp: roles_of_def build_cluster_template_def Let_def set_py_range split: if_splits)

lemma roles_of_master:
  assumes "m \<noteq> ''ps''" and "m \<noteq> ''worker''"
  shows "roles_of (build_cluster_template num_executors num_ps (Some m)) i =
     (if 0 \<le> i \<and> i < num_ps then {''ps''} else {})
     \<union> (if i = num_ps then {m} else {})
     \<union> (if num_ps + 1 \<le> i \<and> i < num_executors then {''worker''} else {})"
  using assms
  by (auto simp: roles_of_def build_cluster_template_def Let_def set_py_range split: if_splits)

lemma template_ranges_distinct:
  "build_cluster_template num_executors num_ps master_node k = Some r \<Longrightarrow> distinct r"
  by (auto simp: build_cluster_template_def distinct_py_range Let_def
           split: option.splits if_splits)

text \<open>
  C4, as stated: for \<open>0 \<le> num_ps < num_executors\<close> every index of \<open>[0, num_executors)\<close>
  lies in the range of exactly one role, and a supplied master name has the range
  \<open>[num_ps]\<close>. It fails when the master name is \<open>worker\<close> (or \<open>ps\<close>): the later
  assignment to the same key replaces the range. With 3 executors, 1 PS node and the
  master name \<open>worker\<close> the table is \<open>{ps: [0], worker: [2]}\<close>: index 1 has no role and
  the master's range is not \<open>[1]\<close>.
\<close>

theorem cluster_template_partition_counterexample:
  "roles_of (build_cluster_template 3 1 (Some ''worker'')) 1 = {}
   \<and> build_cluster_template 3 1 (Some ''worker'') ''worker'' = Some [2]
   \<and> build_cluster_template 3 1 (Some ''worker'') ''ps'' = Some [0]"
  by (simp add: roles_of_def build_cluster_template_def py_range_def upto.simps)

text \<open>
  C4, amended: for \<open>0 \<le> num_ps < num_executors\<close> and a master name that is absent or is
  neither \<open>ps\<close> nor \<open>worker\<close>, the indices that have a role are exactly those of
  \<open>[0, num_executors)\<close>, each has exactly one role, and no range repeats an index; \<open>ps\<close>
  has the range \<open>[0, num_ps)\<close>; without a master name \<open>worker\<close> has
  \<open>[num_ps, num_executors)\<close>; with one, the master has the single index \<open>num_ps\<close> and
  \<open>worker\<close> has \<open>[num_ps + 1, num_executors)\<close>, and is absent when that is empty.
\<close>

theorem cluster_template_partition:
  assumes "0 \<le> num_ps" and "num_ps < num_executors"
      and "master_node \<noteq> Some ''ps''" and "master_node \<noteq> Some ''worker''"
  shows "(\<forall>i. (0 \<le> i \<and> i < num_executors) =
               (\<exists>k. roles_of (build_cluster_template num_executors num_ps master_node) i = {k}))
       \<and> (\<forall>k r. build_cluster_template num_executors num_ps master_node k = Some r \<longrightarrow> distinct r)
       \<and> build_cluster_template num_executors num_ps master_node ''ps'' = Some (py_range 0 num_ps)
       \<and> (master_node = None \<longrightarrow>
            build_cluster_template num_executors num_ps master_node ''worker''
              = Some (py_range num_ps num_executors))
       \<and> (\<forall>m. master_node = Some m \<longrightarrow>
            build_cluster_template num_executors num_ps master_node m = Some [num_ps]
          \<and> build_cluster_template num_executors num_ps master_node ''worker''
              = (if num_executors > num_ps + 1
                 then Some (py_range (num_ps + 1) num_executors) else None))"
proof (cases master_node)
  case None
  have cover: "\<forall>i. (0 \<le> i \<and> i < num_executors) =
      (\<exists>k. roles_of (build_cluster_template num_executors num_ps None) i = {k})"
    using assms(1,2) by (auto simp: roles_of_no_master)
  have ps: "build_cluster_template num_executors num_ps None ''ps'' = Some (py_range 0 num_ps)"
    and wk: "build_cluster_template num_executors num_ps None ''worker''
               = Some (py_range num_ps num_executors)"
    by (simp_all add: build_cluster_template_def Let_def)
  show ?thesis
    unfolding None using cover ps wk template_ranges_distinct by blast
next
  case (Some m)
  have m: "m \<noteq> ''ps''" "m \<noteq> ''worker''" using Some assms(3,4) by auto
  have cover: "\<forall>i. (0 \<le> i \<and> i < num_executors) =
      (\<exists>k. roles_of (build_cluster_template num_executors num_ps (Some m)) i = {k})"
    using assms(1,2) by (auto simp: roles_of_master [OF m])
  have ps: "build_cluster_template num_executors num_ps (Some m) ''ps'' = Some (py_range 0 num_ps)"
    using m by (simp add: build_cluster_template_def Let_def)
  have ms: "build_cluster_template num_executors num_ps (Some m) m = Some [num_ps]"
    using m by (simp add: build_cluster_template_def Let_def py_range_def)
  have wk: "build_cluster_template num_executors num_ps (Some m) ''worker''
      = (if num_executors > num_ps + 1 then Some (py_range (num_ps + 1) num_executors) else None)"
    using m by (simp add: build_cluster_template_def Let_def)
  show ?thesis
    unfolding Some using cover ps ms wk template_ranges_distinct by blast
qed

theorem cluster_template_partition_witness:
  "(0::int) \<le> 1 \<and> (1::int) < 4
   \<and> Some ''chief'' \<noteq> Some ''ps'' \<and> Some ''chief'' \<noteq> Some ''worker''
   \<and> (\<forall>i. (0 \<le> i \<and> i < 4) =
           (\<exists>k. roles_of (build_cluster_template 4 1 (Some ''chief'')) i = {k}))
   \<and> build_cluster_template 4 1 (Some ''chief'') ''ps'' = Some [0]
   \<and> build_cluster_template 4 1 (Some ''chief'') ''chief'' = Some [1]
   \<and> build_cluster_template 4 1 (Some ''chief'') ''worker'' = Some [2, 3]"
proof -
  have h: "(0::int) \<le> 1" "(1::int) < 4"
          "Some ''chief'' \<noteq> Some ''ps''" "Some ''chief'' \<noteq> Some ''worker''"
    by simp_all
  have r: "py_range 0 1 = [0]" "py_range 2 4 = [2, 3]"
    by (simp_all add: py_range_def upto.simps)
  from cluster_template_partition [OF h] r h show ?thesis by simp
qed

section \<open>Feeding\<close>

lemma append_epochs_replicate: "append_epochs n d rdds = rdds @ replicate n d"
  by (induction n arbitrary: rdds) (auto simp: replicate_append_same)

lemma train_bounded:
  "input_mode self = SPARK \<Longrightarrow> qname \<in> set (queues self) \<Longrightarrow> 1 \<le> n \<Longrightarrow>
     train self (RDD parts) n qname
       = Inr (foreachPartition qname (concat (replicate (nat n) parts)))"
  by (simp add: train_def append_epochs_replicate Let_def)

lemma dispatched_foreachPartition: "map snd (foreachPartition qname parts) = parts"
  by (simp add: foreachPartition_def comp_def)

text \<open>
  C5: on a bounded input and \<open>num_epochs \<ge> 1\<close>, in SPARK mode and with a queue the
  cluster knows, \<open>train\<close> hands over the partitions of \<open>num_epochs\<close> copies of the input
  one after the other, so the items are those of \<open>num_epochs\<close> passes over the input;
  \<open>num_epochs = 0\<close> gives what \<open>num_epochs = 10\<close> gives; a negative \<open>num_epochs\<close>
  fails the assertion, on any input.
\<close>

theorem train_epochs:
  "(input_mode self = SPARK \<and> qname \<in> set (queues self) \<and> 1 \<le> n \<longrightarrow>
      (\<exists>d. train self (RDD parts) n qname = Inr d
         \<and> map snd d = concat (replicate (nat n) parts)
         \<and> dispatched_items d = concat (replicate (nat n) (concat parts))
         \<and> (\<forall>x\<in>set d. fst x = qname)))
   \<and> train self' (RDD parts') 0 qname' = train self' (RDD parts') 10 qname'
   \<and> (k < 0 \<longrightarrow> train self'' input k qname'' = Inl AssertionError)"
proof -
  have flat: "concat (concat (replicate m parts)) = concat (replicate m (concat parts))" for m
    by (induction m) simp_all
  have a: "input_mode self = SPARK \<and> qname \<in> set (queues self) \<and> 1 \<le> n \<longrightarrow>
      (\<exists>d. train self (RDD parts) n qname = Inr d
         \<and> map snd d = concat (replicate (nat n) parts)
         \<and> dispatched_items d = concat (replicate (nat n) (concat parts))
         \<and> (\<forall>x\<in>set d. fst x = qname))"
  proof
    assume h: "input_mode self = SPARK \<and> qname \<in> set (queues self) \<and> 1 \<le> n"
    let ?d = "foreachPartition qname (concat (replicate (nat n) parts))"
    have "train self (RDD parts) n qname = Inr ?d"
      using h by (simp add: train_bounded)
    moreover have "map snd ?d = concat (replicate (nat n) parts)"
      by (rule dispatched_foreachPartition)
    moreover have "dispatched_items ?d = concat (replicate (nat n) (concat parts))"
      by (simp add: dispatched_items_def dispatched_foreachPartition flat)
    moreover have "\<forall>x\<in>set ?d. fst x = qname"
      by (auto simp: foreachPartition_def)
    ultimately show "\<exists>d. train self (RDD parts) n qname = Inr d
         \<and> map snd d = concat (replicate (nat n) parts)
         \<and> dispatched_items d = concat (replicate (nat n) (concat parts))
         \<and> (\<forall>x\<in>set d. fst x = qname)"
      by blast
  qed
  have b: "train self' (RDD parts') 0 qname' = train self' (RDD parts') 10 qname'"
    by (simp add: train_def)
  have c: "k < 0 \<longrightarrow> train self'' input k qname'' = Inl AssertionError"
    by (simp add: train_def)
  from a b c show ?thesis by blast
qed

theorem train_epochs_witness:
  "input_mode (example_cluster SPARK) = SPARK
   \<and> ''input'' \<in> set (queues (example_cluster SPARK)) \<and> (1::int) \<le> 2 \<and> (-1::int) < 0
   \<and> (\<exists>d. train (example_cluster SPARK) (RDD [[1, 2], [3::nat]]) 2 ''input'' = Inr d
         \<and> dispatched_items d = [1, 2, 3, 1, 2, 3])
   \<and> train (example_cluster SPARK) (RDD [[1, 2], [3::nat]]) (-1) ''input'' = Inl AssertionError"
proof -
  have h: "input_mode (example_cluster SPARK) = SPARK"
          "''input'' \<in> set (queues (example_cluster SPARK))"
    by (simp_all add: example_cluster_def)
  from train_epochs [of "example_cluster SPARK" "''input''" 2 "[[1, 2], [3::nat]]"
                        "example_cluster SPARK" "[[1, 2], [3::nat]]" "''input''" "-1"
                        "example_cluster SPARK" "RDD [[1, 2], [3::nat]]" "''input''"] h
  show ?thesis by (auto simp: numeral_2_eq_2)
qed

text \<open>
  C10: on a streaming input, in SPARK mode, with a queue the cluster knows and
  \<open>num_epochs \<ge> 0\<close> (the assertion before the branch), \<open>train\<close> hands over every
  partition of every arriving micro-batch once, in arrival order, whatever
  \<open>num_epochs\<close> is: two calls that differ only in \<open>num_epochs\<close> dispatch the same.
\<close>

theorem train_streaming:
  assumes "input_mode self = SPARK" and "qname \<in> set (queues self)" and "0 \<le> n" and "0 \<le> n'"
  shows "train self (DStream batches) n qname = Inr (concat (map (foreachPartition qname) batches))
       \<and> train self (DStream batches) n qname = train self (DStream batches) n' qname
       \<and> (\<forall>d. train self (DStream batches) n qname = Inr d \<longrightarrow> map snd d = concat batches)"
proof -
  have "map snd (concat (map (foreachPartition qname) bs)) = concat bs" for bs :: "'a list list list"
    by (induction bs) (simp_all add: dispatched_foreachPartition)
  then show ?thesis using assms by (auto simp: train_def)
qed

theorem train_streaming_witness:
  "input_mode (example_cluster SPARK) = SPARK
   \<and> ''input'' \<in> set (queues (example_cluster SPARK)) \<and> (0::int) \<le> 0 \<and> (0::int) \<le> 5
   \<and> train (example_cluster SPARK) (DStream [[[1], [2]], [[3::nat]]]) 0 ''input''
       = Inr [(''input'', [1]), (''input'', [2]), (''input'', [3])]
   \<and> train (example_cluster SPARK) (DStream [[[1], [2]], [[3::nat]]]) 0 ''input''
       = train (example_cluster SPARK) (DStream [[[1], [2]], [[3::nat]]]) 5 ''input''"
proof -
  have h: "input_mode (example_cluster SPARK) = SPARK"
          "''input'' \<in> set (queues (example_cluster SPARK))" "(0::int) \<le> 0" "(0::int) \<le> 5"
    by (simp_all add: example_cluster_def)
  from train_streaming [OF h, of "[[[1], [2]], [[3::nat]]]"] h
  show ?thesis by (auto simp: foreachPartition_def)
qed

section \<open>The polling loop of TENSORFLOW mode\<close>

lemma scan_stages_count:
  "scan_stages n ts (c, d) =
     (c + length (filter (\<lambda>t. t = n) ts),
      if filter (\<lambda>t. t = n) ts = [] then d else 3 \<le> c + length (filter (\<lambda>t. t = n) ts))"
  by (induction ts arbitrary: c d) auto

lemma poll_jobs_step:
  "activeJobsIds s \<noteq> [] \<Longrightarrow> c + matching n s < 3 \<Longrightarrow>
     poll_jobs n (s # ss) c g = poll_jobs n ss (c + matching n s) g"
  by (auto simp: scan_stages_count matching_def)

lemma poll_jobs_skip:
  "\<forall>x\<in>set pre. activeJobsIds x \<noteq> [] \<Longrightarrow> c + observed n pre < 3 \<Longrightarrow>
     poll_jobs n (pre @ rest) c g = poll_jobs n rest (c + observed n pre) g"
proof (induction pre arbitrary: c)
  case Nil
  then show ?case by (simp add: observed_def)
next
  case (Cons s pre)
  have "poll_jobs n ((s # pre) @ rest) c g = poll_jobs n (pre @ rest) (c + matching n s) g"
    using Cons.prems by (simp add: poll_jobs_step observed_def del: poll_jobs.simps)
  also have "\<dots> = poll_jobs n rest (c + matching n s + observed n pre) g"
    using Cons.prems by (intro Cons.IH) (auto simp: observed_def)
  finally show ?case by (simp add: observed_def add.assoc)
qed

lemma poll_jobs_returns:
  "poll_jobs n samples c g = Returns (rest, g') \<Longrightarrow> c < 3 \<Longrightarrow>
     \<exists>pre s. samples = pre @ s # rest
       \<and> (\<forall>x\<in>set pre. activeJobsIds x \<noteq> [])
       \<and> c + observed n pre < 3
       \<and> (if activeJobsIds s = [] then g' = g\<lparr>running := False\<rparr>
          else 3 \<le> c + observed n (pre @ [s]) \<and> g' = g)"
proof (induction samples arbitrary: c)
  case Nil
  then show ?case by simp
next
  case (Cons s ss)
  show ?case
  proof (cases "activeJobsIds s = []")
    case True
    with Cons.prems have "rest = ss" "g' = g\<lparr>running := False\<rparr>" by auto
    with True Cons.prems(2) show ?thesis
      by (intro exI [of _ "[]"] exI [of _ s]) (simp add: observed_def)
  next
    case jobs: False
    show ?thesis
    proof (cases "c + matching n s < 3")
      case True
      with jobs Cons.prems(1)
      have "poll_jobs n ss (c + matching n s) g = Returns (rest, g')"
        by (simp add: poll_jobs_step del: poll_jobs.simps)
      from Cons.IH [OF this True] obtain pre s' where
        p: "ss = pre @ s' # rest" "\<forall>x\<in>set pre. activeJobsIds x \<noteq> []"
           "c + matching n s + observed n pre < 3"
           "if activeJobsIds s' = [] then g' = g\<lparr>running := False\<rparr>
            else 3 \<le> c + matching n s + observed n (pre @ [s']) \<and> g' = g"
        by blast
      show ?thesis
        using p jobs
        by (intro exI [of _ "s # pre"] exI [of _ s'])
           (auto simp: observed_def add.assoc split: if_splits)
    next
      case False
      with jobs Cons.prems have "rest = ss" "g' = g"
        by (auto simp: scan_stages_count matching_def split: if_splits)
      with jobs False Cons.prems(2) show ?thesis
        by (intro exI [of _ "[]"] exI [of _ s]) (simp add: observed_def)
    qed
  qed
qed

lemma poll_jobs_third:
  "activeJobsIds s \<noteq> [] \<Longrightarrow> c < 3 \<Longrightarrow> 3 \<le> c + matching n s \<Longrightarrow>
     poll_jobs n (s # rest) c g = Returns (rest, g)"
  by (auto simp: scan_stages_count matching_def)

text \<open>
  C1, as stated: completion is declared only after the condition has held in 3
  consecutive poll samples. The counter is raised once for every active stage that
  matches and is never reset, so it fails in two ways. With one PS node, a single poll
  that lists three active stages of one active task each ends the loop at once; and
  three matching polls separated by polls that do not match (two active tasks in the
  stage) end the loop at the fifth poll, although no two matching polls were consecutive.
\<close>

theorem poll_jobs_consecutive_counterexample:
  "poll_jobs 1 [\<lparr>activeJobsIds = [0], stageTasks = [1, 1, 1]\<rparr>,
                \<lparr>activeJobsIds = [0], stageTasks = [1]\<rparr>] 0 example_globals
     = Returns ([\<lparr>activeJobsIds = [0], stageTasks = [1]\<rparr>], example_globals)
   \<and> poll_jobs 1 [\<lparr>activeJobsIds = [0], stageTasks = [1]\<rparr>,
                  \<lparr>activeJobsIds = [0], stageTasks = [2]\<rparr>,
                  \<lparr>activeJobsIds = [0], stageTasks = [1]\<rparr>,
                  \<lparr>activeJobsIds = [0], stageTasks = [2]\<rparr>,
                  \<lparr>activeJobsIds = [0], stageTasks = [1]\<rparr>] 0 example_globals
     = Returns ([], example_globals)"
  by simp

text \<open>
  C1, amended: the loop counts, over all polls that report active jobs, the active
  stages whose active task count equals the number of PS nodes, without ever resetting
  the count, and it declares completion only at the first poll that either reports no
  active job or brings that count to 3. While every poll reports active jobs and fewer
  than 3 such observations have been made, it does not declare completion. A poll that
  reports no active job ends the loop at that poll, with \<open>running\<close> cleared; the poll
  that brings the count to 3 ends it at that poll.
\<close>

theorem poll_jobs_completion:
  "(poll_jobs n samples 0 g = Returns (rest, g') \<longrightarrow>
      (\<exists>pre s. samples = pre @ s # rest
         \<and> (\<forall>x\<in>set pre. activeJobsIds x \<noteq> [])
         \<and> observed n pre < 3
         \<and> (if activeJobsIds s = [] then g' = g\<lparr>running := False\<rparr>
            else 3 \<le> observed n (pre @ [s]) \<and> g' = g)))
   \<and> ((\<forall>x\<in>set busy. activeJobsIds x \<noteq> []) \<and> observed n busy < 3 \<longrightarrow>
        poll_jobs n busy 0 g = Hangs
      \<and> (activeJobsIds idle = [] \<longrightarrow>
           poll_jobs n (busy @ idle # later) 0 g = Returns (later, g\<lparr>running := False\<rparr>))
      \<and> (activeJobsIds third \<noteq> [] \<and> 3 \<le> observed n (busy @ [third]) \<longrightarrow>
           poll_jobs n (busy @ third # later) 0 g = Returns (later, g)))"
proof -
  have a: "poll_jobs n samples 0 g = Returns (rest, g') \<longrightarrow>
      (\<exists>pre s. samples = pre @ s # rest
         \<and> (\<forall>x\<in>set pre. activeJobsIds x \<noteq> [])
         \<and> observed n pre < 3
         \<and> (if activeJobsIds s = [] then g' = g\<lparr>running := False\<rparr>
            else 3 \<le> observed n (pre @ [s]) \<and> g' = g))"
  proof
    assume r: "poll_jobs n samples 0 g = Returns (rest, g')"
    have "(0::nat) < 3" by simp
    from poll_jobs_returns [OF r this]
    show "\<exists>pre s. samples = pre @ s # rest
         \<and> (\<forall>x\<in>set pre. activeJobsIds x \<noteq> [])
         \<and> observed n pre < 3
         \<and> (if activeJobsIds s = [] then g' = g\<lparr>running := False\<rparr>
            else 3 \<le> observed n (pre @ [s]) \<and> g' = g)"
      by (simp only: add_0)
  qed
  have b: "poll_jobs n busy 0 g = Hangs
      \<and> (activeJobsIds idle = [] \<longrightarrow>
           poll_jobs n (busy @ idle # later) 0 g = Returns (later, g\<lparr>running := False\<rparr>))
      \<and> (activeJobsIds third \<noteq> [] \<and> 3 \<le> observed n (busy @ [third]) \<longrightarrow>
           poll_jobs n (busy @ third # later) 0 g = Returns (later, g))"
    if h: "\<forall>x\<in>set busy. activeJobsIds x \<noteq> []" "observed n busy < 3"
  proof (intro conjI impI)
    show "poll_jobs n busy 0 g = Hangs"
      using poll_jobs_skip [of busy 0 n "[]" g] h by simp
    show "poll_jobs n (busy @ idle # later) 0 g = Returns (later, g\<lparr>running := False\<rparr>)"
      if "activeJobsIds idle = []"
      using poll_jobs_skip [of busy 0 n "idle # later" g] h that by simp
    show "poll_jobs n (busy @ third # later) 0 g = Returns (later, g)"
      if t: "activeJobsIds third \<noteq> [] \<and> 3 \<le> observed n (busy @ [third])"
    proof -
      have "poll_jobs n (busy @ third # later) 0 g
              = poll_jobs n (third # later) (observed n busy) g"
        using poll_jobs_skip [of busy 0 n "third # later" g] h by simp
      also have "\<dots> = Returns (later, g)"
        using t h by (intro poll_jobs_third) (simp_all add: observed_def)
      finally show ?thesis .
    qed
  qed
  from a b show ?thesis by blast
qed

theorem poll_jobs_completion_witness:
  "poll_jobs 1 [\<lparr>activeJobsIds = [0], stageTasks = [1]\<rparr>,
                \<lparr>activeJobsIds = [0], stageTasks = [1]\<rparr>,
                \<lparr>activeJobsIds = [], stageTasks = []\<rparr>] 0 example_globals
     = Returns ([], example_globals\<lparr>running := False\<rparr>)
   \<and> observed 1 [\<lparr>activeJobsIds = [0], stageTasks = [1]\<rparr>,
                  \<lparr>activeJobsIds = [0], stageTasks = [1]\<rparr>] < 3
   \<and> activeJobsIds \<lparr>activeJobsIds = [], stageTasks = []\<rparr> = []
   \<and> activeJobsIds \<lparr>activeJobsIds = [0], stageTasks = [1]\<rparr> \<noteq> []
   \<and> 3 \<le> observed 1 ([\<lparr>activeJobsIds = [0], stageTasks = [1]\<rparr>,
                        \<lparr>activeJobsIds = [0], stageTasks = [1]\<rparr>]
                       @ [\<lparr>activeJobsIds = [0], stageTasks = [1]\<rparr>])
   \<and> poll_jobs 1 [\<lparr>activeJobsIds = [0], stageTasks = [1]\<rparr>,
                  \<lparr>activeJobsIds = [0], stageTasks = [1]\<rparr>] 0 example_globals = Hangs
   \<and> poll_jobs 1 [\<lparr>activeJobsIds = [0], stageTasks = [1]\<rparr>,
                  \<lparr>activeJobsIds = [0], stageTasks = [1]\<rparr>,
                  \<lparr>activeJobsIds = [0], stageTasks = [1]\<rparr>] 0 example_globals
       = Returns ([], example_globals)
   \<and> (\<exists>pre s. [\<lparr>activeJobsIds = [0], stageTasks = [1]\<rparr>,
                \<lparr>activeJobsIds = [0], stageTasks = [1]\<rparr>,
                \<lparr>activeJobsIds = [], stageTasks = []\<rparr>] = pre @ s # []
         \<and> (\<forall>x\<in>set pre. activeJobsIds x \<noteq> [])
         \<and> observed 1 pre < 3
         \<and> (if activeJobsIds s = []
             then example_globals\<lparr>running := False\<rparr> = example_globals\<lparr>running := False\<rparr>
             else 3 \<le> observed 1 (pre @ [s])
                  \<and> example_globals\<lparr>running := False\<rparr> = example_globals))"
proof -
  let ?m = "\<lparr>activeJobsIds = [0::nat], stageTasks = [1::nat]\<rparr>"
  let ?z = "\<lparr>activeJobsIds = [] :: nat list, stageTasks = [] :: nat list\<rparr>"
  have h: "\<forall>x\<in>set [?m, ?m]. activeJobsIds x \<noteq> []" "observed 1 [?m, ?m] < 3"
          "activeJobsIds ?z = []" "activeJobsIds ?m \<noteq> []" "3 \<le> observed 1 ([?m, ?m] @ [?m])"
    by (simp_all add: observed_def matching_def)
  have e: "poll_jobs 1 [?m, ?m, ?z] 0 example_globals
             = Returns ([], example_globals\<lparr>running := False\<rparr>)"
    by simp
  note t = poll_jobs_completion [of 1 "[?m, ?m, ?z]" example_globals "[]"
             "example_globals\<lparr>running := False\<rparr>" "[?m, ?m]" ?z "[]" ?m]
  from t e have one: "\<exists>pre s. [?m, ?m, ?z] = pre @ s # []
         \<and> (\<forall>x\<in>set pre. activeJobsIds x \<noteq> [])
         \<and> observed 1 pre < 3
         \<and> (if activeJobsIds s = []
             then example_globals\<lparr>running := False\<rparr> = example_globals\<lparr>running := False\<rparr>
             else 3 \<le> observed 1 (pre @ [s])
                  \<and> example_globals\<lparr>running := False\<rparr> = example_globals)"
    by blast
  from t h have two: "poll_jobs 1 [?m, ?m] 0 example_globals = Hangs"
    "poll_jobs 1 ([?m, ?m] @ ?z # []) 0 example_globals
       = Returns ([], example_globals\<lparr>running := False\<rparr>)"
    "poll_jobs 1 ([?m, ?m] @ ?m # []) 0 example_globals = Returns ([], example_globals)"
    by blast+
  from one two h show ?thesis by simp
qed

section \<open>Starting a cluster\<close>

lemma check_duplicates_None:
  "(check_duplicates ns seen = None) =
     (distinct (map node_key ns) \<and> set (map node_key ns) \<inter> seen = {})"
  by (induction ns arbitrary: seen) (auto simp: node_key_def Let_def)

lemma check_duplicates_Some:
  "check_duplicates ns seen = Some e \<Longrightarrow>
     \<exists>h x. e = DuplicateNode h x \<and> (h, x) \<in> set (map node_key ns)
       \<and> ((h, x) \<in> seen \<or> 2 \<le> count_list (map node_key ns) (h, x))"
proof (induction ns arbitrary: seen)
  case Nil
  then show ?case by simp
next
  case (Cons n ns)
  show ?case
  proof (cases "node_key n \<in> seen")
    case True
    with Cons.prems show ?thesis by (auto simp: node_key_def Let_def)
  next
    case False
    with Cons.prems have "check_duplicates ns (insert (node_key n) seen) = Some e"
      by (auto simp: node_key_def Let_def)
    from Cons.IH [OF this] obtain h x where
      hx: "e = DuplicateNode h x" "(h, x) \<in> set (map node_key ns)"
          "(h, x) \<in> insert (node_key n) seen \<or> 2 \<le> count_list (map node_key ns) (h, x)"
      by blast
    have "0 < count_list (map node_key ns) (h, x)"
      using hx(2) count_list_0_iff [of "map node_key ns" "(h, x)"] by auto
    with hx show ?thesis by (intro exI [of _ h] exI [of _ x]) auto
  qed
qed

lemma run_at_check:
  "reaches_check env num_executors num_ps log_dir driver_ps_nodes info \<Longrightarrow>
     fst (run env num_executors num_ps mode log_dir driver_ps_nodes master_node qs g)
       = (case check_duplicates info {} of
            Some e \<Rightarrow> Raises e
          | None \<Rightarrow> Returns
              \<lparr>meta = \<lparr>meta_id = random_id env,
                        cluster_template = build_cluster_template num_executors num_ps master_node,
                        meta_num_executors = num_executors,
                        default_fs = strip_root_slash (hadoop_default_fs env),
                        working_dir = cwd env, server_addr = server_address env\<rparr>,
               nodeRDD = py_range 0 num_executors, cluster_info = info, input_mode = mode,
               queues = qs\<rparr>)"
  by (auto simp: reaches_check_def reaches_registration_def run_def Let_def
           split: result.splits option.splits)

text \<open>
  C3: when \<open>run\<close> has the completed registry, it returns a handle holding that registry
  if the pairs \<open>(host, executor_id)\<close> are all different; if some pair occurs twice it
  raises the duplicate-node exception, which carries the host and the executor id of a
  pair that occurs at least twice, and returns no handle.
\<close>

theorem run_duplicate_detection:
  "(reaches_check env num_executors num_ps log_dir driver_ps_nodes info
      \<and> distinct (map node_key info) \<longrightarrow>
      (\<exists>h. fst (run env num_executors num_ps mode log_dir driver_ps_nodes master_node qs g)
              = Returns h \<and> cluster_info h = info))
   \<and> (reaches_check env' num_executors' num_ps' log_dir' driver_ps_nodes' info'
      \<and> \<not> distinct (map node_key info') \<longrightarrow>
      (\<exists>hst ex.
          fst (run env' num_executors' num_ps' mode' log_dir' driver_ps_nodes' master_node' qs' g')
            = Raises (DuplicateNode hst ex)
        \<and> 2 \<le> count_list (map node_key info') (hst, ex)))"
proof (intro conjI impI)
  assume h: "reaches_check env num_executors num_ps log_dir driver_ps_nodes info
      \<and> distinct (map node_key info)"
  then have c: "check_duplicates info {} = None" by (simp add: check_duplicates_None)
  from h have rc: "reaches_check env num_executors num_ps log_dir driver_ps_nodes info" by simp
  show "\<exists>h. fst (run env num_executors num_ps mode log_dir driver_ps_nodes master_node qs g)
              = Returns h \<and> cluster_info h = info"
    unfolding run_at_check [OF rc] c by simp
next
  assume h: "reaches_check env' num_executors' num_ps' log_dir' driver_ps_nodes' info'
      \<and> \<not> distinct (map node_key info')"
  then have "check_duplicates info' {} \<noteq> None" by (simp add: check_duplicates_None)
  then obtain e where e: "check_duplicates info' {} = Some e" by auto
  from check_duplicates_Some [OF e] obtain hst ex where
    "e = DuplicateNode hst ex" "2 \<le> count_list (map node_key info') (hst, ex)" by auto
  moreover from h
  have rc: "reaches_check env' num_executors' num_ps' log_dir' driver_ps_nodes' info'" by simp
  ultimately show "\<exists>hst ex.
          fst (run env' num_executors' num_ps' mode' log_dir' driver_ps_nodes' master_node' qs' g')
            = Raises (DuplicateNode hst ex)
        \<and> 2 \<le> count_list (map node_key info') (hst, ex)"
    unfolding run_at_check [OF rc] e by simp
qed

theorem run_duplicate_detection_witness:
  "reaches_check example_env 2 1 None False
     [example_node ''h0'' 0 ''ps'', example_node ''h1'' 1 ''worker'']
   \<and> distinct (map node_key [example_node ''h0'' 0 ''ps'', example_node ''h1'' 1 ''worker''])
   \<and> reaches_check
       (example_env\<lparr>reservations :=
          Returns [example_node ''h0'' 0 ''ps'', example_node ''h0'' 0 ''worker'']\<rparr>)
       2 1 None False [example_node ''h0'' 0 ''ps'', example_node ''h0'' 0 ''worker'']
   \<and> \<not> distinct (map node_key [example_node ''h0'' 0 ''ps'', example_node ''h0'' 0 ''worker''])
   \<and> (\<exists>h. fst (run example_env 2 1 TENSORFLOW None False None [''input''] initial_globals)
              = Returns h
          \<and> cluster_info h = [example_node ''h0'' 0 ''ps'', example_node ''h1'' 1 ''worker''])
   \<and> (\<exists>hst ex.
          fst (run (example_env\<lparr>reservations :=
                      Returns [example_node ''h0'' 0 ''ps'', example_node ''h0'' 0 ''worker'']\<rparr>)
                 2 1 TENSORFLOW None False None [''input''] initial_globals)
            = Raises (DuplicateNode hst ex)
        \<and> 2 \<le> count_list
                 (map node_key [example_node ''h0'' 0 ''ps'', example_node ''h0'' 0 ''worker''])
                 (hst, ex))"
proof -
  let ?ok = "[example_node ''h0'' 0 ''ps'', example_node ''h1'' 1 ''worker'']"
  let ?dup = "[example_node ''h0'' 0 ''ps'', example_node ''h0'' 0 ''worker'']"
  have h: "reaches_check example_env 2 1 None False ?ok" "distinct (map node_key ?ok)"
          "reaches_check (example_env\<lparr>reservations := Returns ?dup\<rparr>) 2 1 None False ?dup"
          "\<not> distinct (map node_key ?dup)"
    by (simp_all add: reaches_check_def reaches_registration_def example_env_def truthy_def
                      node_key_def example_node_def)
  from run_duplicate_detection
         [where env = example_env and num_executors = 2 and num_ps = 1 and log_dir = None
            and driver_ps_nodes = False and info = ?ok and mode = TENSORFLOW
            and master_node = None and qs = "[''input'']" and g = initial_globals
            and env' = "example_env\<lparr>reservations := Returns ?dup\<rparr>" and num_executors' = 2
            and num_ps' = 1 and log_dir' = None and driver_ps_nodes' = False and info' = ?dup
            and mode' = TENSORFLOW and master_node' = None and qs' = "[''input'']"
            and g' = initial_globals] h
  show ?thesis by blast
qed

text \<open>
  C8, as stated: with \<open>num_ps \<ge> num_executors\<close> the call fails before any process-wide
  state is modified. The assertion comes after the three assignments at the top of
  \<open>run\<close>: a first call with 2 executors and 2 PS nodes raises the assertion error and
  leaves \<open>elastic_id = 1\<close>, \<open>run_id = 1\<close> and \<open>running = True\<close>.
\<close>

theorem run_precondition_counterexample:
  "fst (run example_env 2 2 TENSORFLOW None False None [''input''] initial_globals)
     = Raises AssertionError
   \<and> snd (run example_env 2 2 TENSORFLOW None False None [''input''] initial_globals)
       \<noteq> initial_globals
   \<and> elastic_id (snd (run example_env 2 2 TENSORFLOW None False None [''input''] initial_globals))
       = 1
   \<and> run_id (snd (run example_env 2 2 TENSORFLOW None False None [''input''] initial_globals)) = 1
   \<and> running (snd (run example_env 2 2 TENSORFLOW None False None [''input''] initial_globals))"
  by (simp add: run_def initial_globals_def)

text \<open>
  C8, amended: with \<open>num_ps \<ge> num_executors\<close> the call raises the assertion error after
  it has raised \<open>elastic_id\<close> and \<open>run_id\<close> by one and set \<open>running\<close>, and before
  anything else: the experiment record, \<open>app_id\<close> and \<open>tf_status\<close> are as before, and no
  outside call has been made (no server, no audit write, no background thread).
\<close>

theorem run_precondition:
  assumes "num_executors \<le> num_ps"
  shows "run env num_executors num_ps mode log_dir driver_ps_nodes master_node qs g
       = (Raises AssertionError,
          g\<lparr>elastic_id := elastic_id g + 1, run_id := run_id g + 1, running := True\<rparr>)
     \<and> trace (snd (run env num_executors num_ps mode log_dir driver_ps_nodes master_node qs g))
         = trace g
     \<and> experiment_json
         (snd (run env num_executors num_ps mode log_dir driver_ps_nodes master_node qs g))
         = experiment_json g"
  using assms by (simp add: run_def Let_def)

theorem run_precondition_witness:
  "(2::int) \<le> 2
   \<and> run example_env 2 2 SPARK None False None [''input''] example_globals
       = (Raises AssertionError, example_globals\<lparr>elastic_id := 2, run_id := 2\<rparr>)
   \<and> trace (snd (run example_env 2 2 SPARK None False None [''input''] example_globals))
       = trace example_globals"
proof -
  have h: "(2::int) \<le> 2" by simp
  have e: "example_globals\<lparr>elastic_id := elastic_id example_globals + 1,
             run_id := run_id example_globals + 1, running := True\<rparr>
           = example_globals\<lparr>elastic_id := 2, run_id := 2\<rparr>"
    by (simp add: example_globals_def)
  from run_precondition [OF h, of example_env SPARK None False None "[''input'']" example_globals]
    e h
  show ?thesis by simp
qed

lemma run_returns_info:
  "run env num_executors num_ps mode log_dir driver_ps_nodes master_node qs g = (Returns h, g')
     \<Longrightarrow> reservations env = Returns (cluster_info h)"
  by (auto simp: run_def Let_def split: if_splits result.splits option.splits)

lemma await_reservations_Returns:
  "await_reservations n timeout arrivals = Returns info \<Longrightarrow>
     length info = nat n \<and> n \<le> int (length (in_time timeout arrivals))
     \<and> info = take (nat n) (in_time timeout arrivals)"
  by (auto simp: await_reservations_def in_time_def Let_def split: if_splits)

text \<open>
  C9: when the reservation server is the one the spec describes, a handle that \<open>run\<close>
  returns holds exactly \<open>num_executors\<close> records, the first that arrived within the
  timeout; and when fewer than \<open>num_executors\<close> records arrive within the timeout,
  \<open>run\<close> returns no handle, and raises the timeout error if it gets as far as the
  registration phase.
\<close>

theorem run_after_registration:
  "(run (env\<lparr>reservations := await_reservations num_executors timeout arrivals\<rparr>)
        num_executors num_ps mode log_dir driver_ps_nodes master_node qs g = (Returns h, g')
      \<longrightarrow> length (cluster_info h) = nat num_executors
        \<and> num_executors \<le> int (length (in_time timeout arrivals))
        \<and> cluster_info h = take (nat num_executors) (in_time timeout arrivals))
   \<and> (int (length (in_time timeout' arrivals')) < num_executors' \<longrightarrow>
        (\<forall>h'. fst (run (env'\<lparr>reservations := await_reservations num_executors' timeout' arrivals'\<rparr>)
                 num_executors' num_ps' mode' log_dir' driver_ps_nodes' master_node' qs' g'')
               \<noteq> Returns h')
      \<and> (reaches_registration env' num_executors' num_ps' log_dir' driver_ps_nodes' \<longrightarrow>
          fst (run (env'\<lparr>reservations := await_reservations num_executors' timeout' arrivals'\<rparr>)
                 num_executors' num_ps' mode' log_dir' driver_ps_nodes' master_node' qs' g'')
            = Raises TimeoutError))"
proof -
  let ?run = "run (env\<lparr>reservations := await_reservations num_executors timeout arrivals\<rparr>)
        num_executors num_ps mode log_dir driver_ps_nodes master_node qs g"
  let ?run' = "run (env'\<lparr>reservations := await_reservations num_executors' timeout' arrivals'\<rparr>)
        num_executors' num_ps' mode' log_dir' driver_ps_nodes' master_node' qs' g''"
  have a: "?run = (Returns h, g') \<longrightarrow> length (cluster_info h) = nat num_executors
        \<and> num_executors \<le> int (length (in_time timeout arrivals))
        \<and> cluster_info h = take (nat num_executors) (in_time timeout arrivals)"
  proof
    assume r: "?run = (Returns h, g')"
    from run_returns_info [OF r]
    have "await_reservations num_executors timeout arrivals = Returns (cluster_info h)" by simp
    from await_reservations_Returns [OF this]
    show "length (cluster_info h) = nat num_executors
        \<and> num_executors \<le> int (length (in_time timeout arrivals))
        \<and> cluster_info h = take (nat num_executors) (in_time timeout arrivals)" .
  qed
  have b: "\<forall>h'. fst ?run' \<noteq> Returns h'"
    if few: "int (length (in_time timeout' arrivals')) < num_executors'"
  proof (intro allI notI)
    fix h' assume "fst ?run' = Returns h'"
    then have "?run' = (Returns h', snd ?run')" by (metis prod.collapse)
    from run_returns_info [OF this]
    have "await_reservations num_executors' timeout' arrivals' = Returns (cluster_info h')"
      by simp
    from await_reservations_Returns [OF this] few show False by simp
  qed
  have c: "fst ?run' = Raises TimeoutError"
    if "int (length (in_time timeout' arrivals')) < num_executors'"
      and "reaches_registration env' num_executors' num_ps' log_dir' driver_ps_nodes'"
    using that
    by (auto simp: run_def Let_def await_reservations_def in_time_def reaches_registration_def
             split: result.splits)
  from a b c show ?thesis by blast
qed

theorem run_after_registration_witness:
  "run (example_env\<lparr>reservations := await_reservations 2 600
          [(3, example_node ''h0'' 0 ''ps''), (5, example_node ''h1'' 1 ''worker'')]\<rparr>)
       2 1 TENSORFLOW None False None [''input'', ''output'', ''error''] initial_globals
     = (Returns (example_cluster TENSORFLOW), example_globals)
   \<and> length (cluster_info (example_cluster TENSORFLOW)) = nat 2
   \<and> int (length (in_time 600
        [(3, example_node ''h0'' 0 ''ps''), (700, example_node ''h1'' 1 ''worker'')])) < 2
   \<and> reaches_registration example_env 2 1 None False
   \<and> fst (run (example_env\<lparr>reservations := await_reservations 2 600
          [(3, example_node ''h0'' 0 ''ps''), (700, example_node ''h1'' 1 ''worker'')]\<rparr>)
       2 1 TENSORFLOW None False None [''input'', ''output'', ''error''] initial_globals)
     = Raises TimeoutError"
proof -
  let ?ok = "[(3::nat, example_node ''h0'' 0 ''ps''), (5, example_node ''h1'' 1 ''worker'')]"
  let ?late = "[(3::nat, example_node ''h0'' 0 ''ps''), (700, example_node ''h1'' 1 ''worker'')]"
  have r: "run (example_env\<lparr>reservations := await_reservations 2 600 ?ok\<rparr>)
       2 1 TENSORFLOW None False None [''input'', ''output'', ''error''] initial_globals
     = (Returns (example_cluster TENSORFLOW), example_globals)"
    by (simp add: run_def example_env_def example_cluster_def example_globals_def
          initial_globals_def Let_def truthy_def strip_root_slash_def example_node_def
          py_range_def upto.simps await_reservations_def)
  have h: "int (length (in_time 600 ?late)) < 2"
          "reaches_registration example_env 2 1 None False"
    by (simp_all add: in_time_def reaches_registration_def example_env_def truthy_def)
  from run_after_registration
         [where env = example_env and num_executors = 2 and timeout = 600 and arrivals = ?ok
            and num_ps = 1 and mode = TENSORFLOW and log_dir = None and driver_ps_nodes = False
            and master_node = None and qs = "[''input'', ''output'', ''error'']"
            and g = initial_globals and h = "example_cluster TENSORFLOW" and g' = example_globals
            and env' = example_env and num_executors' = 2 and timeout' = 600
            and arrivals' = ?late and num_ps' = 1 and mode' = TENSORFLOW and log_dir' = None
            and driver_ps_nodes' = False and master_node' = None
            and qs' = "[''input'', ''output'', ''error'']" and g'' = initial_globals] r h
  show ?thesis by blast
qed

section \<open>The background thread\<close>

text \<open>
  C7: when the dispatch inside the thread raises an exception with message \<open>msg\<close>, the
  thread's body returns normally (nothing is raised out of it), with \<open>msg\<close> stored under
  \<open>error\<close> in \<open>tf_status\<close> and \<open>exception_handler\<close> run after that: when a run is in
  progress and has an experiment record, the record is marked \<open>FAILED\<close> and written to
  the audit sink. A later \<open>shutdown\<close> reads \<open>tf_status\<close> and finds the key.
\<close>

theorem start_records_error:
  "fst (start (Failed msg) now g) = Returns ()
   \<and> tf_status (snd (start (Failed msg) now g)) ''error'' = Some msg
   \<and> ''error'' \<in> dom (tf_status (snd (start (Failed msg) now g)))
   \<and> snd (start (Failed msg) now g)
       = exception_handler now (g\<lparr>tf_status := (tf_status g)(''error'' \<mapsto> msg)\<rparr>)
   \<and> (\<forall>doc. running g \<and> experiment_json g = Some doc \<longrightarrow>
        experiment_json (snd (start (Failed msg) now g))
          = Some (doc(''status'' \<mapsto> ''FAILED'', ''finished'' \<mapsto> now))
      \<and> trace (snd (start (Failed msg) now g))
          = trace g @ [PutElastic (app_id g) (elastic_id g)
                         (Some (doc(''status'' \<mapsto> ''FAILED'', ''finished'' \<mapsto> now)))])"
  by (simp add: start_def exception_handler_def Let_def)

theorem start_records_error_witness:
  "running example_globals \<and> experiment_json example_globals = Some [''status'' \<mapsto> ''RUNNING'']
   \<and> fst (start (Failed ''boom'') ''t1'' example_globals) = Returns ()
   \<and> tf_status (snd (start (Failed ''boom'') ''t1'' example_globals)) ''error'' = Some ''boom''
   \<and> map written_status (trace (snd (start (Failed ''boom'') ''t1'' example_globals)))
       = [None, Some ''RUNNING'', None, Some ''FAILED'']"
proof -
  have h: "running example_globals"
          "experiment_json example_globals = Some [''status'' \<mapsto> ''RUNNING'']"
    by (simp_all add: example_globals_def)
  have t: "trace example_globals
             = [ServerStart 2, PutElastic (Some ''app_1'') 1 (Some [''status'' \<mapsto> ''RUNNING'']),
                ThreadStart]"
    by (simp add: example_globals_def)
  from start_records_error [of "''boom''" "''t1''" example_globals] h
  have "fst (start (Failed ''boom'') ''t1'' example_globals) = Returns ()"
    "tf_status (snd (start (Failed ''boom'') ''t1'' example_globals)) ''error'' = Some ''boom''"
    "trace (snd (start (Failed ''boom'') ''t1'' example_globals))
       = trace example_globals @ [PutElastic (app_id example_globals) (elastic_id example_globals)
           (Some ([''status'' \<mapsto> ''RUNNING''](''status'' \<mapsto> ''FAILED'', ''finished'' \<mapsto> ''t1'')))]"
    by blast+
  with h t show ?thesis by simp
qed

section \<open>Stopping a cluster\<close>

lemma poll_jobs_globals:
  "poll_jobs n samples c g = Returns (rest, g') \<Longrightarrow> g' = g \<or> g' = g\<lparr>running := False\<rparr>"
  by (induction samples arbitrary: c) (auto split: if_splits prod.splits)

lemma drain_globals:
  assumes "drain self ssc answers g = Returns (rest, g1)"
  shows "tf_status g1 = tf_status g \<and> app_id g1 = app_id g \<and> elastic_id g1 = elastic_id g
       \<and> experiment_json g1 = experiment_json g \<and> (running g1 \<longrightarrow> running g)
       \<and> (\<exists>evs. trace g1 = trace g @ evs \<and> CancelAllJobs \<notin> set evs
             \<and> (\<forall>e\<in>set evs. written_status e = None))"
proof (cases ssc)
  case (Some stream)
  have "await_streaming s evs = Returns evs' \<Longrightarrow>
          \<exists>k. evs' = evs @ replicate k StreamingStop" for s evs evs'
  proof (induction s arbitrary: evs)
    case Nil
    then show ?case by simp
  next
    case (Cons x s)
    show ?case
    proof (cases "terminated x \<or> server_done_second x")
      case True
      with Cons.prems show ?thesis
        by (auto simp: Let_def intro: exI [of _ 0] exI [of _ "Suc 0"] split: if_splits)
    next
      case False
      with Cons.prems have "await_streaming s
          (if server_done_first x then evs @ [StreamingStop] else evs) = Returns evs'"
        by (auto simp: Let_def split: if_splits)
      from Cons.IH [OF this] obtain k where
        "evs' = (if server_done_first x then evs @ [StreamingStop] else evs)
                  @ replicate k StreamingStop" by blast
      then show ?thesis
        by (cases "server_done_first x")
           (auto intro: exI [of _ "Suc k"] exI [of _ k] simp: replicate_app_Cons_same)
    qed
  qed
  from this [of stream "[]"] assms Some show ?thesis
    by (auto simp: drain_def bind_result_def Let_def split: result.splits)
next
  case None
  show ?thesis
  proof (cases "input_mode self")
    case SPARK
    with None assms show ?thesis
      by (auto simp: drain_def bind_result_def Let_def)
  next
    case TENSORFLOW
    with None assms obtain g0 where
      p: "poll_jobs (length (filter (\<lambda>n. job_name n = ''ps'') (cluster_info self))) answers 0 g
            = Returns (rest, g0)"
      and g1: "g1 = g0\<lparr>trace := trace g0 @
                 [WorkerShutdownJob (length (filter (\<lambda>n. job_name n \<noteq> ''ps'') (cluster_info self)))]\<rparr>"
      by (auto simp: drain_def bind_result_def Let_def split: result.splits)
    from poll_jobs_globals [OF p] g1 show ?thesis by auto
  qed
qed

text \<open>
  What \<open>shutdown\<close> does once its mode-specific wait has returned: it runs \<open>finish\<close>
  and then the last wait, and returns exactly when the last wait ends.
\<close>

lemma shutdown_past_wait:
  "drain self ssc answers g = Returns (rest, g1) \<Longrightarrow>
     shutdown fin now answers self ssc g
       = (case wait_for_jobs rest of
            Returns r \<Rightarrow> Returns (finish fin now self g1)
          | Raises e \<Rightarrow> Raises e
          | Hangs \<Rightarrow> Hangs)"
  by (simp add: shutdown_def bind_result_def split: result.splits)

text \<open>
  The events of \<open>finish\<close> when an error was recorded: a \<open>FAILED\<close> document if
  \<open>running\<close> is set and an experiment record is there, and nothing otherwise; then the
  cancellation of all jobs, the finalized document and, for every PS node in turn, the
  connection, the \<open>control\<close> queue, the \<open>None\<close> put on it and the join. No event stops
  the Spark context.
\<close>

lemma finish_after_error:
  assumes "''error'' \<in> dom (tf_status g1)"
  shows "trace (finish fin now self g1) = trace g1
           @ (if running g1 \<and> experiment_json g1 \<noteq> None
              then [PutElastic (app_id g1) (elastic_id g1)
                      (Some ((the (experiment_json g1))
                               (''status'' \<mapsto> ''FAILED'', ''finished'' \<mapsto> now)))]
              else [])
           @ [CancelAllJobs,
              PutElastic (app_id g1) (elastic_id g1) (experiment_json (finish fin now self g1))]
           @ concat (map ps_stop (filter (\<lambda>n. job_name n = ''ps'') (cluster_info self)))"
  using assms by (auto simp: finish_def exception_handler_def Let_def)


text \<open>
  C6, at the input where the code leaves it: a SPARK-mode cluster is shut down without
  error. \<open>running\<close> is cleared only in the TENSORFLOW-mode branch without active jobs, so
  after \<open>shutdown\<close> has returned it is still set, and \<open>exit_handler\<close>, run at
  interpreter exit, writes a \<open>KILLED\<close> document over the finished one. After a
  TENSORFLOW-mode shutdown that ends on a poll without active jobs, \<open>exit_handler\<close>
  writes nothing.
\<close>

theorem exit_handler_writes_after_shutdown:
  "(case shutdown example_finalize ''t2'' [\<lparr>activeJobsIds = [], stageTasks = []\<rparr>]
           (example_cluster SPARK) None example_globals of
      Returns g1 \<Rightarrow>
        running g1
        \<and> map written_status (trace g1)
            = [None, Some ''RUNNING'', None, None, Some ''FINISHED'', None, None, None, None]
        \<and> map written_status (trace (exit_handler ''t3'' g1))
            = map written_status (trace g1) @ [Some ''KILLED'']
    | Raises e \<Rightarrow> False
    | Hangs \<Rightarrow> False)
   \<and> (case shutdown example_finalize ''t2''
           [\<lparr>activeJobsIds = [], stageTasks = []\<rparr>, \<lparr>activeJobsIds = [], stageTasks = []\<rparr>]
           (example_cluster TENSORFLOW) None example_globals of
      Returns g1 \<Rightarrow> \<not> running g1 \<and> exit_handler ''t3'' g1 = g1
    | Raises e \<Rightarrow> False
    | Hangs \<Rightarrow> False)"
  by (simp add: shutdown_def drain_def finish_def bind_result_def exit_handler_def
        example_finalize_def example_cluster_def example_globals_def example_node_def
        ps_stop_def Let_def)

text \<open>
  A handler either leaves the experiment record and the trace as they are, or sets the
  status to \<open>FAILED\<close> (\<open>KILLED\<close> for the exit handler) and writes that document; neither
  writes \<open>RUNNING\<close>.
\<close>

lemma handlers_write_terminal_status:
  "(experiment_json (exception_handler now g) = experiment_json g
      \<and> trace (exception_handler now g) = trace g)
   \<or> (\<exists>doc. experiment_json (exception_handler now g) = Some doc
         \<and> doc ''status'' = Some ''FAILED''
         \<and> map written_status (trace (exception_handler now g))
             = map written_status (trace g) @ [Some ''FAILED''])"
  "(experiment_json (exit_handler now g) = experiment_json g
      \<and> trace (exit_handler now g) = trace g)
   \<or> (\<exists>doc. experiment_json (exit_handler now g) = Some doc
         \<and> doc ''status'' = Some ''KILLED''
         \<and> map written_status (trace (exit_handler now g))
             = map written_status (trace g) @ [Some ''KILLED''])"
  by (simp_all add: exception_handler_def exit_handler_def Let_def)

end
